theory Spec2Isabelle
  imports Main
begin

section \<open>Registered-model page: the polling controller (ModelPageImpl)\<close>

text \<open>
  The class \<^verbatim>\<open>ModelPageImpl\<close> polls two resources on a fixed interval. Its request ids
  are opaque tokens from \<^verbatim>\<open>getUUID()\<close>; the redux slice \<^verbatim>\<open>apis\<close> maps a request id to the
  state of that request. Everything the class does to its collaborators (the bound action
  creators of its props, the router history, the console, the notification helper) is
  recorded as a list of effects, in program order.
\<close>

type_synonym uuid = string

text \<open>
  What a promise of the page can be rejected with: an \<^verbatim>\<open>ErrorWrapper\<close>, which has the method
  \<^verbatim>\<open>getErrorCode\<close>, or a value that has no such method, be it another error object or
  \<^verbatim>\<open>undefined\<close> (actions.js rejects with \<^verbatim>\<open>Promise.reject()\<close> in places). Calling
  \<^verbatim>\<open>e.getErrorCode()\<close> on the latter two throws a \<^verbatim>\<open>TypeError\<close>; \<open>None\<close> stands for that.
\<close>

datatype error = ErrorWrapper string | TypeError | Undefined

fun getErrorCode :: "error \<Rightarrow> string option" where
  "getErrorCode (ErrorWrapper c) = Some c"
| "getErrorCode TypeError = None"
| "getErrorCode Undefined = None"

datatype route = modelListPageRoute

datatype 'a promise = Resolved 'a | Rejected error

record request =
  active :: bool

record props =
  modelName :: string
  apis :: "uuid \<rightharpoonup> request"

record model_page_impl =
  initSearchModelVersionsApiRequestId :: uuid
  initgetRegisteredModelApiRequestId :: uuid
  searchModelVersionsApiId :: uuid
  getRegisteredModelApiId :: uuid
  updateRegisteredModelApiId :: uuid
  deleteRegisteredModelApiId :: uuid
  pollIntervalId :: "nat option"

text \<open>
  The calls the page makes. \<^verbatim>\<open>getRegisteredModelApi(modelName, id)\<close> and
  \<^verbatim>\<open>searchModelVersionsApi({ name: modelName }, id)\<close> are the two fetches;
  \<^verbatim>\<open>deleteRegisteredModelApi(model, id, localUpdateOnly)\<close> carries its optional id
  (\<^verbatim>\<open>undefined\<close> is \<open>None\<close>) and its flag.
\<close>

datatype effect =
    GetRegisteredModelApi string uuid
  | SearchModelVersionsApi string uuid
  | DeleteRegisteredModelApi string "uuid option" bool
  | LogErrorAndNotifyUser error
  | ConsoleError error
  | HistoryPush route

fun is_fetch :: "effect \<Rightarrow> bool" where
  "is_fetch (GetRegisteredModelApi n i) = True"
| "is_fetch (SearchModelVersionsApi n i) = True"
| "is_fetch (DeleteRegisteredModelApi n i l) = False"
| "is_fetch (LogErrorAndNotifyUser e) = False"
| "is_fetch (ConsoleError e) = False"
| "is_fetch (HistoryPush r) = False"

text \<open>
  How the two fetches of one \<^verbatim>\<open>loadData\<close> settle is decided by the backend: each either
  fulfils (\<open>None\<close>) or rejects with an error, and one of them settles first.
  \<^verbatim>\<open>Promise.all\<close> fulfils when both do and otherwise rejects with the rejection that
  came first.
\<close>

record fetch_outcome =
  registeredModelResult :: "error option"
  modelVersionsResult :: "error option"
  modelVersionsSettlesFirst :: bool

definition promise_all :: "fetch_outcome \<Rightarrow> unit promise" where
  "promise_all out =
     (if modelVersionsSettlesFirst out then
        (case modelVersionsResult out of
           Some e \<Rightarrow> Rejected e
         | None \<Rightarrow> (case registeredModelResult out of Some e \<Rightarrow> Rejected e | None \<Rightarrow> Resolved ()))
      else
        (case registeredModelResult out of
           Some e \<Rightarrow> Rejected e
         | None \<Rightarrow> (case modelVersionsResult out of Some e \<Rightarrow> Rejected e | None \<Rightarrow> Resolved ())))"

text \<open>
  \<^verbatim>\<open>p.catch(h)\<close>: a fulfilled promise passes through; on a rejection the handler runs. A
  handler yields its effects and the way it ends: when it returns, the resulting promise is
  fulfilled, and when it throws, the resulting promise is rejected with what it threw.
\<close>

definition promise_catch ::
  "effect list \<times> unit promise \<Rightarrow> (error \<Rightarrow> effect list \<times> unit promise) \<Rightarrow>
   effect list \<times> unit promise" where
  "promise_catch r h =
     (case snd r of
        Resolved v \<Rightarrow> r
      | Rejected e \<Rightarrow> (fst r @ fst (h e), snd (h e)))"

definition pollingRelatedRequestIds :: "model_page_impl \<Rightarrow> uuid list" where
  "pollingRelatedRequestIds this = [getRegisteredModelApiId this, searchModelVersionsApiId this]"

definition hasPendingPollingRequest :: "model_page_impl \<Rightarrow> props \<Rightarrow> bool" where
  "hasPendingPollingRequest this p =
     list_all (\<lambda>requestId. case apis p requestId of None \<Rightarrow> False | Some request \<Rightarrow> active request)
       (pollingRelatedRequestIds this)"

definition loadData ::
  "model_page_impl \<Rightarrow> props \<Rightarrow> bool \<Rightarrow> fetch_outcome \<Rightarrow> effect list \<times> unit promise" where
  "loadData this p isInitialLoading out =
     ([GetRegisteredModelApi (modelName p)
         (if isInitialLoading then initgetRegisteredModelApiRequestId this
          else getRegisteredModelApiId this),
       SearchModelVersionsApi (modelName p)
         (if isInitialLoading then initSearchModelVersionsApiRequestId this
          else searchModelVersionsApiId this)],
      promise_all out)"

text \<open>
  The handler \<^verbatim>\<open>pollData\<close> gives to \<^verbatim>\<open>catch\<close>. It calls \<^verbatim>\<open>e.getErrorCode()\<close> before anything
  else, so a rejection without that method makes it throw before it has logged anything.
\<close>

definition pollData_onRejected :: "props \<Rightarrow> error \<Rightarrow> effect list \<times> unit promise" where
  "pollData_onRejected p e =
     (case getErrorCode e of
        None \<Rightarrow> ([], Rejected TypeError)
      | Some code \<Rightarrow>
          if code = ''RESOURCE_DOES_NOT_EXIST'' then
            ([LogErrorAndNotifyUser e,
              DeleteRegisteredModelApi (modelName p) None True,
              HistoryPush modelListPageRoute], Resolved ())
          else ([ConsoleError e], Resolved ()))"

text \<open>
  \<^verbatim>\<open>pollData\<close>; \<open>visible\<close> is what \<^verbatim>\<open>Utils.isBrowserTabVisible()\<close> returns at the call.
\<close>

definition pollData ::
  "model_page_impl \<Rightarrow> props \<Rightarrow> bool \<Rightarrow> fetch_outcome \<Rightarrow> effect list \<times> unit promise" where
  "pollData this p visible out =
     (if \<not> hasPendingPollingRequest this p \<and> visible then
        promise_catch (loadData this p False out) (pollData_onRejected p)
      else ([], Resolved ()))"

subsection \<open>The interval\<close>

text \<open>
  The window's timers: the ids of the intervals that are set, and the next id
  \<^verbatim>\<open>setInterval\<close> hands out. \<^verbatim>\<open>clearInterval(undefined)\<close> does nothing.
\<close>

record timers =
  live :: "nat list"
  nextTimerId :: nat

definition setInterval :: "timers \<Rightarrow> nat \<times> timers" where
  "setInterval t = (nextTimerId t, t\<lparr>live := nextTimerId t # live t, nextTimerId := Suc (nextTimerId t)\<rparr>)"

definition clearInterval :: "nat option \<Rightarrow> timers \<Rightarrow> timers" where
  "clearInterval i t = (case i of None \<Rightarrow> t | Some n \<Rightarrow> t\<lparr>live := removeAll n (live t)\<rparr>)"

definition componentDidMount ::
  "model_page_impl \<Rightarrow> props \<Rightarrow> fetch_outcome \<Rightarrow> timers \<Rightarrow> effect list \<times> model_page_impl \<times> timers" where
  "componentDidMount this p out t =
     (let r = promise_catch (loadData this p True out) (\<lambda>e. ([ConsoleError e], Resolved ()));
          s = setInterval t
      in (fst r, this\<lparr>pollIntervalId := Some (fst s)\<rparr>, snd s))"

definition componentWillUnmount :: "model_page_impl \<Rightarrow> timers \<Rightarrow> timers" where
  "componentWillUnmount this t = clearInterval (pollIntervalId this) t"

text \<open>
  The callback that \<^verbatim>\<open>render\<close> hands to \<^verbatim>\<open>RequestStateWrapper\<close>, as far as the timers are
  concerned: an error of a critical initial request clears the interval.
\<close>

definition render_requestState :: "model_page_impl \<Rightarrow> bool \<Rightarrow> timers \<Rightarrow> timers" where
  "render_requestState this hasError t = (if hasError then clearInterval (pollIntervalId this) t else t)"

text \<open>
  One tick of the page's interval: the window runs \<^verbatim>\<open>pollData\<close> if the interval the page
  set is still live, and nothing otherwise. The promise \<^verbatim>\<open>pollData\<close> returns is dropped.
\<close>

definition timerTick ::
  "model_page_impl \<Rightarrow> timers \<Rightarrow> props \<Rightarrow> bool \<Rightarrow> fetch_outcome \<Rightarrow> effect list" where
  "timerTick this t p visible out =
     (case pollIntervalId this of
        None \<Rightarrow> []
      | Some i \<Rightarrow> if i \<in> set (live t) then fst (pollData this p visible out) else [])"

subsection \<open>The local delete\<close>

text \<open>
  \<^verbatim>\<open>deleteRegisteredModelApi\<close> of actions.js. The payload is either a promise that is
  already fulfilled (a local update) or the call of the delete service. \<open>fresh\<close> is the
  value \<^verbatim>\<open>getUUID()\<close> returns when the id is left out.
\<close>

datatype payload = PromiseResolve | WrapDeferred string string

record action =
  action_type :: string
  action_payload :: payload
  meta_id :: uuid
  meta_model :: string

definition deleteRegisteredModelApi :: "string \<Rightarrow> uuid option \<Rightarrow> bool \<Rightarrow> uuid \<Rightarrow> action" where
  "deleteRegisteredModelApi model i localUpdateOnly fresh =
     \<lparr>action_type = ''DELETE_REGISTERED_MODEL'',
      action_payload = (if localUpdateOnly then PromiseResolve
                        else WrapDeferred ''deleteRegisteredModel'' model),
      meta_id = (case i of None \<Rightarrow> fresh | Some j \<Rightarrow> j),
      meta_model = model\<rparr>"

text \<open>
  Modelled from the spec: the reducer of the entity slice \<^verbatim>\<open>modelByName\<close> is not part of
  the sources at hand. The spec has the controller evict the corresponding local entity;
  the action that does so is the delete action above once its payload is fulfilled, which
  a local update is at once.
\<close>

definition modelByName_reducer :: "(string \<rightharpoonup> 'm) \<Rightarrow> action \<Rightarrow> (string \<rightharpoonup> 'm)" where
  "modelByName_reducer m a =
     (if action_type a = ''DELETE_REGISTERED_MODEL'' \<and> action_payload a = PromiseResolve
      then m(meta_model a := None) else m)"

section \<open>Experiment view: the persisted column selection\<close>

text \<open>
  Modelled from the spec: the component \<^verbatim>\<open>ExperimentView\<close> with its handlers
  \<^verbatim>\<open>handleColumnSelectionCheck\<close>, \<^verbatim>\<open>handleDiffSwitchChange\<close> and \<^verbatim>\<open>onDownloadCsv\<close>, the
  helpers of \<^verbatim>\<open>ExperimentViewUtil\<close> and \<^verbatim>\<open>Utils\<close> and the constants are not part of the sources
  at hand; ExperimentView.test.js, which drives them, is. The definitions below follow the
  spec's description of the view-state store (\<^verbatim>\<open>setUnchecked\<close>, \<^verbatim>\<open>toggleDiff\<close>, \<^verbatim>\<open>toCsv\<close>).
\<close>

datatype column_type = ATTRIBUTES | PARAMS | METRICS | TAGS

type_synonym categorized_keys = "column_type \<Rightarrow> string list"

record persisted_state =
  categorizedUncheckedKeys :: categorized_keys
  diffSwitchSelected :: bool
  preSwitchCategorizedUncheckedKeys :: categorized_keys
  postSwitchCategorizedUncheckedKeys :: categorized_keys

text \<open>
  Modelled from the spec: the persisted state of \<^verbatim>\<open>ExperimentViewPersistedState\<close>, which
  is not part of the sources at hand. A fresh view starts with the default keys in all
  three maps and the switch off, as the tests of the switch observe; \<open>d\<close> stands for the
  constant \<^verbatim>\<open>DEFAULT_CATEGORIZED_UNCHECKED_KEYS\<close>.
\<close>

definition initialPersistedState :: "categorized_keys \<Rightarrow> persisted_state" where
  "initialPersistedState d =
     \<lparr>categorizedUncheckedKeys = d, diffSwitchSelected = False,
      preSwitchCategorizedUncheckedKeys = d, postSwitchCategorizedUncheckedKeys = d\<rparr>"

text \<open>
  Modelled from the spec: \<^verbatim>\<open>setUnchecked(columnSet, keys)\<close> ``writes into whichever of
  pre/post-switch map is currently active; if diff mode is off, also writes directly into
  \<^verbatim>\<open>uncheckedKeys\<close>''. The active map is the post-switch map while the switch is on and the
  pre-switch map while it is off.
\<close>

definition setUnchecked :: "column_type \<Rightarrow> string list \<Rightarrow> persisted_state \<Rightarrow> persisted_state" where
  "setUnchecked columnSet keys s =
     (if diffSwitchSelected s then
        s\<lparr>postSwitchCategorizedUncheckedKeys :=
            (postSwitchCategorizedUncheckedKeys s)(columnSet := keys)\<rparr>
      else
        s\<lparr>preSwitchCategorizedUncheckedKeys := (preSwitchCategorizedUncheckedKeys s)(columnSet := keys),
          categorizedUncheckedKeys := (categorizedUncheckedKeys s)(columnSet := keys)\<rparr>)"

text \<open>
  Modelled from the spec: \<^verbatim>\<open>handleColumnSelectionCheck(categorizedUncheckedKeys)\<close>, the
  handler of ExperimentView.js behind \<^verbatim>\<open>setUnchecked\<close>; as the tests call it, it takes the
  keys of all four column types at once.
\<close>

definition handleColumnSelectionCheck :: "categorized_keys \<Rightarrow> persisted_state \<Rightarrow> persisted_state" where
  "handleColumnSelectionCheck ks s =
     fold (\<lambda>c. setUnchecked c (ks c)) [ATTRIBUTES, PARAMS, METRICS, TAGS] s"

text \<open>
  Modelled from the spec: what switching off restores. The spec restores the unchecked
  keys from the pre-switch map and has the edits made while the switch was on ``preserved
  independently and merged back on disable''. The edits are preserved in the post-switch
  map, while the unchecked keys still hold what the diff function returned; merging them
  back appends to the pre-switch keys the keys of the post-switch map that the diff
  function had not hidden. The test \<^verbatim>\<open>handleDiffSwitchChange maintains state of unchecked
  columns while in switch state\<close> of ExperimentView.test.js expects \<^verbatim>\<open>['a2', 'a3']\<close> where
  the keys were \<^verbatim>\<open>['a2']\<close> before the switch, the diff function hid \<^verbatim>\<open>['a1']\<close> and the edit
  was \<^verbatim>\<open>['a1', 'a3']\<close>.
\<close>

definition restoredKeys :: "string list \<Rightarrow> string list \<Rightarrow> string list \<Rightarrow> string list" where
  "restoredKeys pre post cur = pre @ filter (\<lambda>k. k \<notin> set cur \<and> k \<notin> set pre) post"

definition getRestoredCategorizedUncheckedKeys ::
  "categorized_keys \<Rightarrow> categorized_keys \<Rightarrow> categorized_keys \<Rightarrow> categorized_keys" where
  "getRestoredCategorizedUncheckedKeys pre post cur = (\<lambda>c. restoredKeys (pre c) (post c) (cur c))"

text \<open>
  Modelled from the spec: \<^verbatim>\<open>toggleDiff()\<close>, the handler \<^verbatim>\<open>handleDiffSwitchChange\<close>. The diff
  function is external (\<^verbatim>\<open>computeDiffColumns(rows)\<close> in the spec,
  \<^verbatim>\<open>ExperimentViewUtil.getCategorizedUncheckedKeysDiffView\<close> in the tests, which replace it by
  a stub) and is a parameter, as are the rows it is given. Enabling saves the current
  unchecked keys into the pre-switch map first, computes the post-switch keys with the diff
  function and hides them; disabling restores the unchecked keys.
\<close>

definition toggleDiff ::
  "('rows \<Rightarrow> categorized_keys) \<Rightarrow> 'rows \<Rightarrow> persisted_state \<Rightarrow> persisted_state" where
  "toggleDiff computeDiffColumns rows s =
     (if \<not> diffSwitchSelected s then
        (let saved = categorizedUncheckedKeys s;
             new = computeDiffColumns rows
         in s\<lparr>preSwitchCategorizedUncheckedKeys := saved,
              postSwitchCategorizedUncheckedKeys := new,
              categorizedUncheckedKeys := new,
              diffSwitchSelected := True\<rparr>)
      else
        s\<lparr>categorizedUncheckedKeys :=
            getRestoredCategorizedUncheckedKeys
              (preSwitchCategorizedUncheckedKeys s)
              (postSwitchCategorizedUncheckedKeys s)
              (categorizedUncheckedKeys s),
          diffSwitchSelected := False\<rparr>)"

text \<open>Sequences of store operations, and the invariant the spec states for the store.\<close>

datatype store_op = SetUnchecked column_type "string list" | ToggleDiff

fun apply_store_op ::
  "('rows \<Rightarrow> categorized_keys) \<Rightarrow> 'rows \<Rightarrow> store_op \<Rightarrow> persisted_state \<Rightarrow> persisted_state" where
  "apply_store_op f rows (SetUnchecked c keys) s = setUnchecked c keys s"
| "apply_store_op f rows ToggleDiff s = toggleDiff f rows s"

definition run_store ::
  "('rows \<Rightarrow> categorized_keys) \<Rightarrow> 'rows \<Rightarrow> store_op list \<Rightarrow> persisted_state \<Rightarrow> persisted_state" where
  "run_store f rows ops s = fold (apply_store_op f rows) ops s"

definition store_invariant :: "persisted_state \<Rightarrow> bool" where
  "store_invariant s =
     (if diffSwitchSelected s
      then categorizedUncheckedKeys s = postSwitchCategorizedUncheckedKeys s
      else categorizedUncheckedKeys s = preSwitchCategorizedUncheckedKeys s)"

text \<open>Keys of the four column types, written out (a JavaScript object literal).\<close>

definition keys4 :: "string list \<Rightarrow> string list \<Rightarrow> string list \<Rightarrow> string list \<Rightarrow> categorized_keys" where
  "keys4 a p m t = (\<lambda>c. case c of ATTRIBUTES \<Rightarrow> a | PARAMS \<Rightarrow> p | METRICS \<Rightarrow> m | TAGS \<Rightarrow> t)"

section \<open>Experiment view: the CSV export\<close>

text \<open>
  Modelled from the spec: \<^verbatim>\<open>toCsv(rows, uncheckedKeys)\<close>, which \<^verbatim>\<open>onDownloadCsv\<close> of
  ExperimentView.js hands to the file saver; neither is part of the sources at hand. A row
  is a run: the values of its eight fixed columns, already printed, and its params, its
  metrics and its tags, each a list of key and value. The table carries, besides its rows,
  the keys of the param, metric and tag columns it offers; which of them are shown is
  decided by the unchecked keys.
\<close>

record run_row =
  startTime :: string
  duration :: string
  runId :: string
  runName :: string
  sourceType :: string
  sourceName :: string
  user :: string
  status :: string
  params :: "(string \<times> string) list"
  metrics :: "(string \<times> string) list"
  tags :: "(string \<times> string) list"

record run_table =
  runs :: "run_row list"
  paramKeyList :: "string list"
  metricKeyList :: "string list"
  tagKeyList :: "string list"

text \<open>Modelled from the spec: the fixed columns and, for a run, their cells.\<close>

definition attributeColumns :: "string list" where
  "attributeColumns =
     [''Start Time'', ''Duration'', ''Run ID'', ''Name'', ''Source Type'', ''Source Name'',
      ''User'', ''Status'']"

definition attributeCells :: "run_row \<Rightarrow> string list" where
  "attributeCells r =
     [startTime r, duration r, runId r, runName r, sourceType r, sourceName r, user r, status r]"

text \<open>
  Modelled from the spec: the cell of a run under a param, metric or tag column is the raw
  value the run has for the key. The spec defines no error path; a run that has no value
  for the key gets an empty cell.
\<close>

definition valueOf :: "(string \<times> string) list \<Rightarrow> string \<Rightarrow> string" where
  "valueOf kvs k = (case map_of kvs k of None \<Rightarrow> [] | Some v \<Rightarrow> v)"

text \<open>
  Modelled from the spec: the columns of the file. A column is included only if its key is
  not among the unchecked keys of its column type; the fixed columns come first, then the
  visible param columns, the visible metric columns and the visible tag columns.
\<close>

definition getFilteredKeys :: "string list \<Rightarrow> string list \<Rightarrow> string list" where
  "getFilteredKeys keyList unchecked = filter (\<lambda>k. k \<notin> set unchecked) keyList"

definition csvColumns :: "run_table \<Rightarrow> categorized_keys \<Rightarrow> (column_type \<times> string) list" where
  "csvColumns tbl u =
     map (Pair ATTRIBUTES) attributeColumns
     @ map (Pair PARAMS) (getFilteredKeys (paramKeyList tbl) (u PARAMS))
     @ map (Pair METRICS) (getFilteredKeys (metricKeyList tbl) (u METRICS))
     @ map (Pair TAGS) (getFilteredKeys (tagKeyList tbl) (u TAGS))"

definition csvHeader :: "run_table \<Rightarrow> categorized_keys \<Rightarrow> string list" where
  "csvHeader tbl u = map snd (csvColumns tbl u)"

definition csvRow :: "run_table \<Rightarrow> categorized_keys \<Rightarrow> run_row \<Rightarrow> string list" where
  "csvRow tbl u r =
     attributeCells r
     @ map (valueOf (params r)) (getFilteredKeys (paramKeyList tbl) (u PARAMS))
     @ map (valueOf (metrics r)) (getFilteredKeys (metricKeyList tbl) (u METRICS))
     @ map (valueOf (tags r)) (getFilteredKeys (tagKeyList tbl) (u TAGS))"

text \<open>
  Modelled from the spec: the text of the file, comma-separated cells and one line for the
  header and for each row. What the format requires of a cell (the spec asks for no
  escaping beyond that) is the parameter \<open>esc\<close>.
\<close>

fun joinWith :: "string \<Rightarrow> string list \<Rightarrow> string" where
  "joinWith sep [] = []"
| "joinWith sep [x] = x"
| "joinWith sep (x # y # ys) = x @ sep @ joinWith sep (y # ys)"

definition csvLine :: "(string \<Rightarrow> string) \<Rightarrow> string list \<Rightarrow> string" where
  "csvLine esc cells = joinWith [CHR '',''] (map esc cells) @ [CHR 0x0A]"

definition toCsv :: "(string \<Rightarrow> string) \<Rightarrow> run_table \<Rightarrow> categorized_keys \<Rightarrow> string" where
  "toCsv esc tbl u =
     concat (map (csvLine esc) (csvHeader tbl u # map (csvRow tbl u) (runs tbl)))"

text \<open>
  Reading a file back: its lines, each ended by a line break, and the cells of a line
  between the commas. A cell is plain when the format requires nothing of it: it holds
  neither a comma nor a line break and is printed as it is.
\<close>

fun splitOn :: "char \<Rightarrow> string \<Rightarrow> string list" where
  "splitOn c [] = [[]]"
| "splitOn c (x # xs) =
     (if x = c then [] # splitOn c xs
      else (case splitOn c xs of [] \<Rightarrow> [[x]] | y # ys \<Rightarrow> (x # y) # ys))"




section \<open>Sequences of events on a mounted page\<close>

text \<open>
  The page together with the window's timers, and the effects seen so far. The events are
  the ticks of the page's interval, each with the props, the visibility of the tab and the
  way the backend settles the fetches at that moment, and the unmounting of the page. The
  effects of the handler that runs when a tick's fetches are rejected are recorded with
  that tick. A tick changes neither the page nor the timers: \<^verbatim>\<open>pollData\<close> assigns to no
  field and calls neither \<^verbatim>\<open>setInterval\<close> nor \<^verbatim>\<open>clearInterval\<close>.
\<close>

record world =
  page :: model_page_impl
  window :: timers
  trace :: "effect list"

datatype event = Tick props bool fetch_outcome | Unmount

fun step :: "world \<Rightarrow> event \<Rightarrow> world" where
  "step w (Tick p visible out) =
     w\<lparr>trace := trace w @ timerTick (page w) (window w) p visible out\<rparr>"
| "step w Unmount = w\<lparr>window := componentWillUnmount (page w) (window w)\<rparr>"

definition interval_cleared :: "world \<Rightarrow> bool" where
  "interval_cleared w =
     (case pollIntervalId (page w) of None \<Rightarrow> True | Some i \<Rightarrow> i \<notin> set (live (window w)))"

section \<open>Concrete inputs\<close>

text \<open>A page with its six request ids, before and after it is mounted.\<close>

definition page0 :: model_page_impl where
  "page0 = \<lparr>initSearchModelVersionsApiRequestId = ''init-search'',
            initgetRegisteredModelApiRequestId = ''init-get'',
            searchModelVersionsApiId = ''search'',
            getRegisteredModelApiId = ''get'',
            updateRegisteredModelApiId = ''update'',
            deleteRegisteredModelApiId = ''delete'',
            pollIntervalId = None\<rparr>"

definition timers0 :: timers where
  "timers0 = \<lparr>live = [], nextTimerId = 0\<rparr>"

definition props_idle :: props where
  "props_idle = \<lparr>modelName = ''model'',
     apis = [''get'' \<mapsto> \<lparr>active = False\<rparr>, ''search'' \<mapsto> \<lparr>active = False\<rparr>]\<rparr>"

definition props_one_active :: props where
  "props_one_active = \<lparr>modelName = ''model'',
     apis = [''get'' \<mapsto> \<lparr>active = False\<rparr>, ''search'' \<mapsto> \<lparr>active = True\<rparr>]\<rparr>"

definition props_all_active :: props where
  "props_all_active = \<lparr>modelName = ''model'',
     apis = [''get'' \<mapsto> \<lparr>active = True\<rparr>, ''search'' \<mapsto> \<lparr>active = True\<rparr>]\<rparr>"

definition out_ok :: fetch_outcome where
  "out_ok = \<lparr>registeredModelResult = None, modelVersionsResult = None,
            modelVersionsSettlesFirst = False\<rparr>"

definition out_not_found :: fetch_outcome where
  "out_not_found = \<lparr>registeredModelResult = Some (ErrorWrapper ''RESOURCE_DOES_NOT_EXIST''),
                   modelVersionsResult = None, modelVersionsSettlesFirst = False\<rparr>"

definition out_internal :: fetch_outcome where
  "out_internal = \<lparr>registeredModelResult = None,
                  modelVersionsResult = Some (ErrorWrapper ''INTERNAL_ERROR''),
                  modelVersionsSettlesFirst = True\<rparr>"

text \<open>
  Both fetches fail: the model request first, with the not-found code, and the version
  search after it with another code. And a fetch rejected with a value that has no code.
\<close>

definition out_mixed :: fetch_outcome where
  "out_mixed = \<lparr>registeredModelResult = Some (ErrorWrapper ''RESOURCE_DOES_NOT_EXIST''),
               modelVersionsResult = Some (ErrorWrapper ''INTERNAL_ERROR''),
               modelVersionsSettlesFirst = False\<rparr>"

definition out_no_code :: fetch_outcome where
  "out_no_code = \<lparr>registeredModelResult = Some Undefined, modelVersionsResult = None,
                 modelVersionsSettlesFirst = False\<rparr>"

definition page1 :: model_page_impl where
  "page1 = fst (snd (componentDidMount page0 props_idle out_ok timers0))"

definition timers1 :: timers where
  "timers1 = snd (snd (componentDidMount page0 props_idle out_ok timers0))"

definition world1 :: world where
  "world1 = \<lparr>page = page1, window = timers1, trace = []\<rparr>"

text \<open>
  The inputs of the tests of the diff switch: the stub that stands in for the diff
  function, the default keys, the state after the first column selection, and the state
  after the switch was turned on and the selection changed.
\<close>

definition diffStub :: "unit \<Rightarrow> categorized_keys" where
  "diffStub = (\<lambda>u. keys4 [''a1''] [''p1''] [''m1''] [''t1''])"

definition defaultKeys :: categorized_keys where
  "defaultKeys = keys4 [] [] [] []"

definition state_off :: persisted_state where
  "state_off = handleColumnSelectionCheck (keys4 [''a2''] [''p2''] [''m2''] [''t2''])
                 (initialPersistedState defaultKeys)"

definition state_on_edited :: persisted_state where
  "state_on_edited = handleColumnSelectionCheck (keys4 [''a1'', ''a3''] [] [''m1'', ''m3''] [])
                       (toggleDiff diffStub () state_off)"

definition columnKeys :: "categorized_keys \<Rightarrow> string list list" where
  "columnKeys ks = map ks [ATTRIBUTES, PARAMS, METRICS, TAGS]"

fun is_edit :: "store_op \<Rightarrow> bool" where
  "is_edit (SetUnchecked c keys) = True"
| "is_edit ToggleDiff = False"

text \<open>
  The inputs of the tests of the CSV download: one finished run with a param, a metric and
  the tags a and b, and a second run that lacks the tag b.
\<close>

definition testRun :: run_row where
  "testRun =
     \<lparr>startTime = ''1970-01-01 00:00:00'', duration = ''0ms'', runId = ''run-id'',
      runName = ''name'', sourceType = ''LOCAL'', sourceName = ''src.py'', user = ''user'',
      status = ''FINISHED'',
      params = [(''batch_size'', ''512'')], metrics = [(''acc'', ''0.1'')],
      tags = [(''a'', ''0''), (''b'', ''1'')]\<rparr>"

definition otherRun :: run_row where
  "otherRun =
     \<lparr>startTime = ''1970-01-02 00:00:00'', duration = ''2s'', runId = ''run-2'',
      runName = ''second'', sourceType = ''NOTEBOOK'', sourceName = ''nb'', user = ''eve'',
      status = ''FAILED'',
      params = [(''batch_size'', ''64'')], metrics = [(''acc'', ''0.7'')],
      tags = [(''a'', ''x'')]\<rparr>"

definition testTable :: "string list \<Rightarrow> run_table" where
  "testTable tagKeys =
     \<lparr>runs = [testRun], paramKeyList = [''batch_size''], metricKeyList = [''acc''],
      tagKeyList = tagKeys\<rparr>"

definition twoRuns :: run_table where
  "twoRuns =
     \<lparr>runs = [testRun, otherRun], paramKeyList = [''batch_size''], metricKeyList = [''acc''],
      tagKeyList = [''a'', ''b'']\<rparr>"

section \<open>The polling controller: what a poll does\<close>

lemmas poll_defs = pollData_def hasPendingPollingRequest_def pollingRelatedRequestIds_def
  loadData_def promise_catch_def promise_all_def pollData_onRejected_def

lemmas page_defs = componentDidMount_def setInterval_def clearInterval_def
  componentWillUnmount_def timerTick_def

lemmas page_inputs = page0_def timers0_def props_idle_def props_one_active_def
  props_all_active_def out_ok_def out_not_found_def out_internal_def out_mixed_def
  out_no_code_def page1_def timers1_def world1_def

lemma page1_mounted:
  "pollIntervalId page1 = Some 0" "live timers1 = [0]"
  "getRegisteredModelApiId page1 = ''get''" "searchModelVersionsApiId page1 = ''search''"
  by (simp_all add: page_inputs page_defs)

text \<open>
  The promise \<^verbatim>\<open>pollData\<close> returns is fulfilled unless the fetches were rejected with a
  value that has no error code.
\<close>

lemma pollData_rejected_iff:
  "snd (pollData this p visible out) \<noteq> Resolved () \<longleftrightarrow>
     (\<not> hasPendingPollingRequest this p \<and> visible
      \<and> (\<exists>e. promise_all out = Rejected e \<and> getErrorCode e = None))"
  by (auto simp: pollData_def loadData_def promise_catch_def pollData_onRejected_def
      split: promise.splits option.splits)

text \<open>The gate as the code has it: a poll is skipped when every polling request is active.\<close>

lemma pollData_all_active:
  "hasPendingPollingRequest this p \<Longrightarrow> pollData this p visible out = ([], Resolved ())"
  by (simp add: pollData_def)

lemma hasPendingPollingRequest_iff:
  "hasPendingPollingRequest this p \<longleftrightarrow>
     (\<forall>i \<in> set (pollingRelatedRequestIds this). \<exists>r. apis p i = Some r \<and> active r)"
  by (auto simp: hasPendingPollingRequest_def pollingRelatedRequestIds_def split: option.splits)

lemma pollData_fetches:
  "\<not> hasPendingPollingRequest this p \<Longrightarrow>
   filter is_fetch (fst (pollData this p True out)) =
     [GetRegisteredModelApi (modelName p) (getRegisteredModelApiId this),
      SearchModelVersionsApi (modelName p) (searchModelVersionsApiId this)]"
  by (simp add: pollData_def loadData_def promise_catch_def pollData_onRejected_def
      split: promise.splits option.splits)

lemma timerTick_after_unmount:
  "timerTick this (componentWillUnmount this t) p visible out = []"
  by (simp add: timerTick_def componentWillUnmount_def clearInterval_def split: option.splits)

lemma step_trace_cleared: "interval_cleared w \<Longrightarrow> trace (step w ev) = trace w"
  by (cases ev)
    (auto simp: interval_cleared_def timerTick_def componentWillUnmount_def clearInterval_def
      split: option.splits)

lemma step_keeps_cleared: "interval_cleared w \<Longrightarrow> interval_cleared (step w ev)"
  by (cases ev)
    (auto simp: interval_cleared_def componentWillUnmount_def clearInterval_def
      split: option.splits)

lemma unmount_clears: "interval_cleared (step w Unmount)"
  by (simp add: interval_cleared_def componentWillUnmount_def clearInterval_def
      split: option.splits)

lemma cleared_trace_stays: "interval_cleared w \<Longrightarrow> trace (foldl step w evs) = trace w"
proof (induction evs arbitrary: w)
  case Nil
  show ?case by simp
next
  case (Cons ev evs)
  have "trace (foldl step (step w ev) evs) = trace (step w ev)"
    using Cons.IH [OF step_keeps_cleared [OF Cons.prems]] .
  then show ?case by (simp add: step_trace_cleared [OF Cons.prems])
qed

lemma step_Unmount_trace: "trace (step w Unmount) = trace w"
  by simp

text \<open>
  Claim C1 says that a poll issues no fetch as soon as at least one tracked polling
  request is active. The code asks whether every tracked request is active
  (\<^verbatim>\<open>hasPendingPollingRequest\<close> uses \<^verbatim>\<open>every\<close>). On a mounted page whose version search is
  still active while the model request has finished, with the tab visible, the gate of
  \<^verbatim>\<open>pollData\<close> is open and both fetches are issued again.
\<close>

theorem C1_poll_fetches_while_a_request_is_active:
  "apis props_one_active ''search'' = Some \<lparr>active = True\<rparr>
   \<and> ''search'' \<in> set (pollingRelatedRequestIds page1)
   \<and> hasPendingPollingRequest page1 props_one_active = False
   \<and> fst (pollData page1 props_one_active True out_ok)
       = [GetRegisteredModelApi ''model'' ''get'', SearchModelVersionsApi ''model'' ''search'']"
  by (simp add: page_inputs page_defs poll_defs)

text \<open>
  Claim C8: when the tab is not visible, \<^verbatim>\<open>pollData\<close> issues no fetch (it has no effect at
  all) and returns a promise that is already fulfilled.
\<close>

theorem C8_poll_hidden_tab:
  "\<not> visible \<Longrightarrow> pollData this p visible out = ([], Resolved ())"
  by (simp add: pollData_def)

theorem C8_poll_hidden_tab_witness:
  "\<not> False
   \<and> pollData page1 props_idle False out_ok = ([], Resolved ())
   \<and> fst (pollData page1 props_idle True out_ok) \<noteq> []"
  using C8_poll_hidden_tab [of False page1 props_idle out_ok]
  by (simp add: page_inputs page_defs poll_defs)

text \<open>
  Claim C9 says that a fetch of a poll that fails with any error other than not-found is
  logged and swallowed, with no eviction and no redirect. \<^verbatim>\<open>Promise.all\<close> hands the
  handler the first rejection only: when the model request is rejected first with the
  not-found code and the version search fails after it with \<^verbatim>\<open>INTERNAL_ERROR\<close>, that second
  error is never logged and the poll deletes the model locally and redirects. And when
  the rejection has no \<^verbatim>\<open>getErrorCode\<close>, the handler throws before it logs: nothing is
  logged and the promise of the poll is rejected.
\<close>

theorem C9_other_failure_not_always_swallowed:
  "modelVersionsResult out_mixed = Some (ErrorWrapper ''INTERNAL_ERROR'')
   \<and> pollData page1 props_idle True out_mixed =
       ([GetRegisteredModelApi ''model'' ''get'', SearchModelVersionsApi ''model'' ''search'',
         LogErrorAndNotifyUser (ErrorWrapper ''RESOURCE_DOES_NOT_EXIST''),
         DeleteRegisteredModelApi ''model'' None True,
         HistoryPush modelListPageRoute], Resolved ())
   \<and> registeredModelResult out_no_code = Some Undefined
   \<and> pollData page1 props_idle True out_no_code =
       ([GetRegisteredModelApi ''model'' ''get'', SearchModelVersionsApi ''model'' ''search''],
        Rejected TypeError)"
  by (simp add: page_inputs page_defs poll_defs)

text \<open>
  Claim C9 as amended: when the rejection a poll receives from its fetches (the first of
  them to be rejected) carries an error code other than \<^verbatim>\<open>RESOURCE_DOES_NOT_EXIST\<close>, the
  error goes to the console and nowhere else: the effects of the poll are the two fetches
  and the console message (no delete, no redirect), the promise of the poll is fulfilled,
  the tick leaves the page and the timers as they were, and the interval that was live
  being still live, the next tick whose gate is open issues both fetches again.
\<close>

theorem C9_transient_error_is_swallowed:
  assumes "\<not> hasPendingPollingRequest this p" and "visible"
    and "promise_all out = Rejected e"
    and "getErrorCode e = Some code"
    and "code \<noteq> ''RESOURCE_DOES_NOT_EXIST''"
  shows "pollData this p visible out =
           ([GetRegisteredModelApi (modelName p) (getRegisteredModelApiId this),
             SearchModelVersionsApi (modelName p) (searchModelVersionsApiId this),
             ConsoleError e], Resolved ())
    \<and> page (step w (Tick p visible out)) = page w
    \<and> window (step w (Tick p visible out)) = window w
    \<and> (pollIntervalId this = Some i \<and> i \<in> set (live t) \<and> \<not> hasPendingPollingRequest this p'
         \<longrightarrow> filter is_fetch (timerTick this t p' True out') =
               [GetRegisteredModelApi (modelName p') (getRegisteredModelApiId this),
                SearchModelVersionsApi (modelName p') (searchModelVersionsApiId this)])"
proof -
  have "pollData this p visible out =
           ([GetRegisteredModelApi (modelName p) (getRegisteredModelApiId this),
             SearchModelVersionsApi (modelName p) (searchModelVersionsApiId this),
             ConsoleError e], Resolved ())"
    using assms by (simp add: pollData_def loadData_def promise_catch_def pollData_onRejected_def)
  moreover have "filter is_fetch (timerTick this t p' True out') =
               [GetRegisteredModelApi (modelName p') (getRegisteredModelApiId this),
                SearchModelVersionsApi (modelName p') (searchModelVersionsApiId this)]"
    if "pollIntervalId this = Some i" "i \<in> set (live t)" "\<not> hasPendingPollingRequest this p'"
    using that by (simp add: timerTick_def pollData_fetches)
  ultimately show ?thesis by simp
qed

theorem C9_transient_error_is_swallowed_witness:
  "\<not> hasPendingPollingRequest page1 props_idle
   \<and> promise_all out_internal = Rejected (ErrorWrapper ''INTERNAL_ERROR'')
   \<and> pollData page1 props_idle True out_internal =
       ([GetRegisteredModelApi ''model'' ''get'', SearchModelVersionsApi ''model'' ''search'',
         ConsoleError (ErrorWrapper ''INTERNAL_ERROR'')], Resolved ())
   \<and> filter is_fetch (timerTick page1 timers1 props_idle True out_ok) =
       [GetRegisteredModelApi ''model'' ''get'', SearchModelVersionsApi ''model'' ''search'']"
proof -
  have gate: "\<not> hasPendingPollingRequest page1 props_idle"
    by (simp add: page_inputs page_defs poll_defs)
  have rej: "promise_all out_internal = Rejected (ErrorWrapper ''INTERNAL_ERROR'')"
    by (simp add: out_internal_def promise_all_def)
  have code: "getErrorCode (ErrorWrapper ''INTERNAL_ERROR'') = Some ''INTERNAL_ERROR''"
    by simp
  have other: "''INTERNAL_ERROR'' \<noteq> ''RESOURCE_DOES_NOT_EXIST''"
    by simp
  have name: "modelName props_idle = ''model''"
    by (simp add: props_idle_def)
  from C9_transient_error_is_swallowed [OF gate TrueI rej code other,
      of world1 0 timers1 props_idle out_ok]
  show ?thesis using gate rej by (simp add: page1_mounted name)
qed

text \<open>
  Claim C2 says that a not-found failure makes the controller stop its own interval, so
  that no later tick fetches. The handler of \<^verbatim>\<open>pollData\<close> does not clear the interval. On
  the mounted page a tick whose fetch fails with \<^verbatim>\<open>RESOURCE_DOES_NOT_EXIST\<close> is followed by
  a tick that issues both fetches again.
\<close>

theorem C2_interval_survives_not_found:
  "trace (foldl step world1
            [Tick props_idle True out_not_found, Tick props_idle True out_ok]) =
     [GetRegisteredModelApi ''model'' ''get'', SearchModelVersionsApi ''model'' ''search'',
      LogErrorAndNotifyUser (ErrorWrapper ''RESOURCE_DOES_NOT_EXIST''),
      DeleteRegisteredModelApi ''model'' None True,
      HistoryPush modelListPageRoute,
      GetRegisteredModelApi ''model'' ''get'', SearchModelVersionsApi ''model'' ''search'']"
  by (simp add: page_inputs page_defs poll_defs)

text \<open>
  Claim C2 as amended: when the rejection a poll receives is the not-found condition, the
  poll tells the user, calls the delete action of the model as a local update (its payload
  is fulfilled without a service call, and the reducer drops the model from the local
  entities) and pushes the route of the model list, the redirect. The interval is cleared
  when the page unmounts; from then on no event adds an effect, so no tick fetches.
\<close>

theorem C2_not_found_evicts_and_redirects:
  assumes "\<not> hasPendingPollingRequest this p" and "visible"
    and "promise_all out = Rejected e"
    and "getErrorCode e = Some ''RESOURCE_DOES_NOT_EXIST''"
  shows "pollData this p visible out =
           ([GetRegisteredModelApi (modelName p) (getRegisteredModelApiId this),
             SearchModelVersionsApi (modelName p) (searchModelVersionsApiId this),
             LogErrorAndNotifyUser e,
             DeleteRegisteredModelApi (modelName p) None True,
             HistoryPush modelListPageRoute], Resolved ())
    \<and> action_payload (deleteRegisteredModelApi (modelName p) None True fresh) = PromiseResolve
    \<and> modelByName_reducer m (deleteRegisteredModelApi (modelName p) None True fresh) (modelName p)
        = None
    \<and> trace (foldl step (step w Unmount) evs) = trace w"
proof -
  have "pollData this p visible out =
           ([GetRegisteredModelApi (modelName p) (getRegisteredModelApiId this),
             SearchModelVersionsApi (modelName p) (searchModelVersionsApiId this),
             LogErrorAndNotifyUser e,
             DeleteRegisteredModelApi (modelName p) None True,
             HistoryPush modelListPageRoute], Resolved ())"
    using assms by (simp add: pollData_def loadData_def promise_catch_def pollData_onRejected_def)
  moreover have "trace (foldl step (step w Unmount) evs) = trace w"
    using cleared_trace_stays [OF unmount_clears, of w evs] by (simp only: step_Unmount_trace)
  ultimately show ?thesis
    by (simp add: deleteRegisteredModelApi_def modelByName_reducer_def)
qed

theorem C2_not_found_evicts_and_redirects_witness:
  "\<not> hasPendingPollingRequest page1 props_idle
   \<and> promise_all out_not_found = Rejected (ErrorWrapper ''RESOURCE_DOES_NOT_EXIST'')
   \<and> pollData page1 props_idle True out_not_found =
       ([GetRegisteredModelApi ''model'' ''get'', SearchModelVersionsApi ''model'' ''search'',
         LogErrorAndNotifyUser (ErrorWrapper ''RESOURCE_DOES_NOT_EXIST''),
         DeleteRegisteredModelApi ''model'' None True,
         HistoryPush modelListPageRoute], Resolved ())
   \<and> modelByName_reducer [''model'' \<mapsto> (1::nat)]
        (deleteRegisteredModelApi ''model'' None True ''fresh'') ''model'' = None
   \<and> trace (foldl step (step world1 Unmount) [Tick props_idle True out_ok]) = []"
proof -
  have gate: "\<not> hasPendingPollingRequest page1 props_idle"
    by (simp add: page_inputs page_defs poll_defs)
  have rej: "promise_all out_not_found = Rejected (ErrorWrapper ''RESOURCE_DOES_NOT_EXIST'')"
    by (simp add: out_not_found_def promise_all_def)
  have code: "getErrorCode (ErrorWrapper ''RESOURCE_DOES_NOT_EXIST'')
      = Some ''RESOURCE_DOES_NOT_EXIST''"
    by simp
  have name: "modelName props_idle = ''model''"
    by (simp add: props_idle_def)
  have tr: "trace world1 = []"
    by (simp add: world1_def)
  from C2_not_found_evicts_and_redirects [OF gate TrueI rej code,
      of "''fresh''" "[''model'' \<mapsto> (1::nat)]" world1 "[Tick props_idle True out_ok]"]
  show ?thesis using gate rej by (simp add: page1_mounted name tr)
qed

section \<open>The view-state store: the diff switch\<close>

lemma keys4_apply [simp]:
  "keys4 a p m t ATTRIBUTES = a" "keys4 a p m t PARAMS = p"
  "keys4 a p m t METRICS = m" "keys4 a p m t TAGS = t"
  by (simp_all add: keys4_def)

lemma keys4_eta: "keys4 (ks ATTRIBUTES) (ks PARAMS) (ks METRICS) (ks TAGS) = ks"
  by (auto simp: keys4_def fun_eq_iff split: column_type.splits)

lemma fun_upd_all_columns:
  "ks(ATTRIBUTES := a, PARAMS := p, METRICS := m, TAGS := t) = keys4 a p m t"
  by (auto simp: keys4_def fun_eq_iff split: column_type.splits)

text \<open>Writing all four column types at once replaces the whole active map.\<close>

lemma handleColumnSelectionCheck_eq:
  "handleColumnSelectionCheck ks s =
     (if diffSwitchSelected s then s\<lparr>postSwitchCategorizedUncheckedKeys := ks\<rparr>
      else s\<lparr>preSwitchCategorizedUncheckedKeys := ks, categorizedUncheckedKeys := ks\<rparr>)"
  by (simp add: handleColumnSelectionCheck_def setUnchecked_def fun_upd_all_columns keys4_eta)

lemma restoredKeys_unedited: "restoredKeys pre post post = pre"
  by (simp add: restoredKeys_def)

lemma toggleDiff_off:
  "\<not> diffSwitchSelected s \<Longrightarrow>
   toggleDiff f rs s =
     s\<lparr>preSwitchCategorizedUncheckedKeys := categorizedUncheckedKeys s,
       postSwitchCategorizedUncheckedKeys := f rs,
       categorizedUncheckedKeys := f rs, diffSwitchSelected := True\<rparr>"
  by (simp add: toggleDiff_def Let_def)

lemma toggleDiff_on:
  "diffSwitchSelected s \<Longrightarrow>
   toggleDiff f rs s =
     s\<lparr>categorizedUncheckedKeys :=
         getRestoredCategorizedUncheckedKeys (preSwitchCategorizedUncheckedKeys s)
           (postSwitchCategorizedUncheckedKeys s) (categorizedUncheckedKeys s),
       diffSwitchSelected := False\<rparr>"
  by (simp add: toggleDiff_def)

text \<open>
  Edits made while the switch is on leave the switch, the pre-switch map and the unchecked
  keys alone.
\<close>

lemma edits_while_on:
  "diffSwitchSelected s \<Longrightarrow> list_all is_edit ops \<Longrightarrow>
   diffSwitchSelected (run_store f rs ops s)
   \<and> preSwitchCategorizedUncheckedKeys (run_store f rs ops s) = preSwitchCategorizedUncheckedKeys s
   \<and> categorizedUncheckedKeys (run_store f rs ops s) = categorizedUncheckedKeys s"
proof (induction ops arbitrary: s)
  case Nil
  then show ?case by (simp add: run_store_def)
next
  case (Cons op ops)
  obtain c keys where op: "op = SetUnchecked c keys"
    using Cons.prems(2) by (cases op) auto
  let ?s = "setUnchecked c keys s"
  have on: "diffSwitchSelected ?s"
    using Cons.prems(1) by (simp add: setUnchecked_def)
  have "list_all is_edit ops"
    using Cons.prems(2) by simp
  from Cons.IH [OF on this] Cons.prems(1) show ?case
    by (simp add: run_store_def op setUnchecked_def)
qed

lemmas store_eval = state_off_def state_on_edited_def diffStub_def defaultKeys_def
  initialPersistedState_def handleColumnSelectionCheck_eq toggleDiff_def Let_def
  getRestoredCategorizedUncheckedKeys_def restoredKeys_def columnKeys_def

subsection \<open>The tests of the diff switch\<close>

text \<open>
  \<^verbatim>\<open>handleDiffSwitchChange maintains state of pre-switch unchecked columns\<close>: what the test
  expects of the three maps after the switch is turned on, and of the unchecked keys after
  it is turned off again.
\<close>

lemma test_maintains_pre_switch_columns:
  "columnKeys (preSwitchCategorizedUncheckedKeys (toggleDiff diffStub () state_off))
     = [[''a2''], [''p2''], [''m2''], [''t2'']]"
  "columnKeys (postSwitchCategorizedUncheckedKeys (toggleDiff diffStub () state_off))
     = [[''a1''], [''p1''], [''m1''], [''t1'']]"
  "columnKeys (categorizedUncheckedKeys (toggleDiff diffStub () state_off))
     = [[''a1''], [''p1''], [''m1''], [''t1'']]"
  "columnKeys (categorizedUncheckedKeys (toggleDiff diffStub () (toggleDiff diffStub () state_off)))
     = [[''a2''], [''p2''], [''m2''], [''t2'']]"
  by (simp_all add: store_eval)

text \<open>
  \<^verbatim>\<open>handleDiffSwitchChange changes state correctly\<close>: the switch is off by default, on after
  one change and off after two, and the unchecked keys are then the default ones again.
\<close>

lemma test_changes_state_correctly:
  "\<not> diffSwitchSelected (initialPersistedState defaultKeys)"
  "diffSwitchSelected (toggleDiff diffStub () (initialPersistedState defaultKeys))"
  "\<not> diffSwitchSelected
       (toggleDiff diffStub () (toggleDiff diffStub () (initialPersistedState defaultKeys)))"
  "columnKeys (categorizedUncheckedKeys
       (toggleDiff diffStub () (toggleDiff diffStub () (initialPersistedState defaultKeys))))
     = columnKeys defaultKeys"
  by (simp_all add: store_eval)

subsection \<open>Claims about the diff switch\<close>




text \<open>
  Claim C4 says that every operation of the store keeps the invariant. From the initial
  state, turning the switch on (the diff function hides p1 among the params) and then
  setting the unchecked params to none leaves the switch on with unchecked keys that
  differ from the post-switch keys: the edit went into the post-switch map alone.
\<close>

theorem C4_edit_while_on_breaks_invariant:
  "store_invariant (initialPersistedState defaultKeys)
   \<and> \<not> store_invariant
        (run_store diffStub () [ToggleDiff, SetUnchecked PARAMS []] (initialPersistedState defaultKeys))"
proof -
  let ?s = "run_store diffStub () [ToggleDiff, SetUnchecked PARAMS []] (initialPersistedState defaultKeys)"
  have "diffSwitchSelected ?s"
    and "categorizedUncheckedKeys ?s PARAMS = [''p1'']"
    and "postSwitchCategorizedUncheckedKeys ?s PARAMS = []"
    by (simp_all add: run_store_def store_eval setUnchecked_def)
  then have "\<not> store_invariant ?s"
    by (auto simp: store_invariant_def)
  then show ?thesis
    by (simp add: store_invariant_def initialPersistedState_def)
qed

text \<open>
  Claim C4 as amended: the initial state satisfies the invariant; from a state that
  satisfies it, toggling the switch (either way) and setting unchecked keys while the
  switch is off lead to a state that satisfies it; setting unchecked keys while the switch
  is on writes the post-switch map only, and the invariant holds afterwards exactly when
  the keys written are the unchecked keys that column type already has.
\<close>

theorem C4_invariant_preserved_except_edits_while_on:
  assumes "store_invariant s"
  shows "store_invariant (initialPersistedState d)
    \<and> store_invariant (toggleDiff f rs s)
    \<and> (\<not> diffSwitchSelected s \<longrightarrow> store_invariant (setUnchecked c keys s))
    \<and> (diffSwitchSelected s \<longrightarrow>
         (store_invariant (setUnchecked c keys s) \<longleftrightarrow> keys = categorizedUncheckedKeys s c))"
proof (cases "diffSwitchSelected s")
  case True
  then have eq: "categorizedUncheckedKeys s = postSwitchCategorizedUncheckedKeys s"
    using assms by (simp add: store_invariant_def)
  have "store_invariant (toggleDiff f rs s)"
    by (simp add: toggleDiff_on [OF True] store_invariant_def eq
        getRestoredCategorizedUncheckedKeys_def restoredKeys_unedited)
  moreover have "store_invariant (setUnchecked c keys s) \<longleftrightarrow>
      keys = categorizedUncheckedKeys s c"
    using True by (auto simp: setUnchecked_def store_invariant_def eq fun_eq_iff)
  ultimately show ?thesis
    using True by (simp add: store_invariant_def initialPersistedState_def)
next
  case False
  then have eq: "categorizedUncheckedKeys s = preSwitchCategorizedUncheckedKeys s"
    using assms by (simp add: store_invariant_def)
  have "store_invariant (toggleDiff f rs s)"
    by (simp add: toggleDiff_off [OF False] store_invariant_def)
  moreover have "store_invariant (setUnchecked c keys s)"
    using False by (simp add: setUnchecked_def store_invariant_def eq)
  ultimately show ?thesis
    using False by (simp add: store_invariant_def initialPersistedState_def)
qed

theorem C4_invariant_preserved_except_edits_while_on_witness:
  "store_invariant state_off
   \<and> \<not> diffSwitchSelected state_off
   \<and> store_invariant (toggleDiff diffStub () state_off)
   \<and> store_invariant (setUnchecked TAGS [''t3''] state_off)
   \<and> diffSwitchSelected (toggleDiff diffStub () state_off)
   \<and> store_invariant (toggleDiff diffStub () (toggleDiff diffStub () state_off))
   \<and> \<not> store_invariant (setUnchecked TAGS [''t3''] (toggleDiff diffStub () state_off))"
proof -
  have inv: "store_invariant state_off"
    by (simp add: store_invariant_def store_eval)
  have off: "\<not> diffSwitchSelected state_off"
    by (simp add: store_eval)
  have on: "diffSwitchSelected (toggleDiff diffStub () state_off)"
    by (simp add: store_eval)
  have tags: "categorizedUncheckedKeys (toggleDiff diffStub () state_off) TAGS = [''t1'']"
    by (simp add: store_eval)
  have first: "store_invariant (toggleDiff diffStub () state_off)"
    "store_invariant (setUnchecked TAGS [''t3''] state_off)"
    using C4_invariant_preserved_except_edits_while_on [OF inv, of defaultKeys diffStub "()" TAGS "[''t3'']"]
      off by simp_all
  from C4_invariant_preserved_except_edits_while_on [OF first(1), of defaultKeys diffStub "()" TAGS "[''t3'']"]
  show ?thesis using inv off on first by (simp add: tags)
qed

text \<open>
  Claim C5: from a state with the switch off, turning the switch on saves the current
  unchecked keys as the pre-switch keys and makes both the post-switch keys and the
  unchecked keys exactly what the diff function returns; nothing of the previous unchecked
  keys is merged into them.
\<close>

theorem C5_enabling_the_switch:
  assumes "\<not> diffSwitchSelected s"
  shows "diffSwitchSelected (toggleDiff f rs s)
    \<and> preSwitchCategorizedUncheckedKeys (toggleDiff f rs s) = categorizedUncheckedKeys s
    \<and> postSwitchCategorizedUncheckedKeys (toggleDiff f rs s) = f rs
    \<and> categorizedUncheckedKeys (toggleDiff f rs s) = f rs"
  using assms by (simp add: toggleDiff_off)

theorem C5_enabling_the_switch_witness:
  "\<not> diffSwitchSelected state_off
   \<and> diffSwitchSelected (toggleDiff diffStub () state_off)
   \<and> columnKeys (preSwitchCategorizedUncheckedKeys (toggleDiff diffStub () state_off))
       = [[''a2''], [''p2''], [''m2''], [''t2'']]
   \<and> columnKeys (postSwitchCategorizedUncheckedKeys (toggleDiff diffStub () state_off))
       = [[''a1''], [''p1''], [''m1''], [''t1'']]
   \<and> columnKeys (categorizedUncheckedKeys (toggleDiff diffStub () state_off))
       = [[''a1''], [''p1''], [''m1''], [''t1'']]"
proof -
  have off: "\<not> diffSwitchSelected state_off"
    by (simp add: store_eval)
  have cur: "columnKeys (categorizedUncheckedKeys state_off) = [[''a2''], [''p2''], [''m2''], [''t2'']]"
    by (simp add: store_eval)
  have new: "columnKeys (diffStub ()) = [[''a1''], [''p1''], [''m1''], [''t1'']]"
    by (simp add: diffStub_def columnKeys_def)
  from C5_enabling_the_switch [OF off, of diffStub "()"] show ?thesis
    using off cur new by simp
qed

section \<open>The CSV export\<close>

lemmas csv_cells = testRun_def otherRun_def testTable_def twoRuns_def
  csvHeader_def csvRow_def csvColumns_def attributeColumns_def attributeCells_def
  getFilteredKeys_def valueOf_def

lemmas csv_eval = csv_cells toCsv_def csvLine_def

subsection \<open>The tests of the download\<close>

text \<open>
  The layout of the three files the tests of \<^verbatim>\<open>Download CSV\<close> expect: with the tag columns
  a and b, with the tag b unchecked, and with no tag column at all.
\<close>

lemma test_csv_contains_tags:
  "toCsv (\<lambda>x. x) (testTable [''a'', ''b'']) (keys4 [] [] [] [])
   = ''Start Time,Duration,Run ID,Name,Source Type,Source Name,User,Status,batch_size,acc,a,b''
     @ [CHR 0x0A]
     @ ''1970-01-01 00:00:00,0ms,run-id,name,LOCAL,src.py,user,FINISHED,512,0.1,0,1''
     @ [CHR 0x0A]"
  by (simp add: csv_eval)

lemma test_csv_unchecked_tag:
  "toCsv (\<lambda>x. x) (testTable [''a'', ''b'']) (keys4 [] [] [] [''b''])
   = ''Start Time,Duration,Run ID,Name,Source Type,Source Name,User,Status,batch_size,acc,a''
     @ [CHR 0x0A]
     @ ''1970-01-01 00:00:00,0ms,run-id,name,LOCAL,src.py,user,FINISHED,512,0.1,0''
     @ [CHR 0x0A]"
  by (simp add: csv_eval)

lemma test_csv_without_tags:
  "toCsv (\<lambda>x. x) (testTable []) (keys4 [] [] [] [])
   = ''Start Time,Duration,Run ID,Name,Source Type,Source Name,User,Status,batch_size,acc''
     @ [CHR 0x0A]
     @ ''1970-01-01 00:00:00,0ms,run-id,name,LOCAL,src.py,user,FINISHED,512,0.1''
     @ [CHR 0x0A]"
  by (simp add: csv_eval)

subsection \<open>Reading the file back\<close>

text \<open>
  Splitting the text of a file at its line breaks and each line at its commas gives back
  the header and the rows cell by cell, as long as every cell is plain.
\<close>

lemma splitOn_not_Nil: "splitOn c xs \<noteq> []"
  by (induction xs) (auto split: list.splits)










subsection \<open>Claims about the export\<close>





end
